theory Spec2Isabelle
  imports Main "HOL-Library.Multiset"
begin

section \<open>Strings as the program uses them\<close>

text \<open>
  Go strings are byte sequences; they are modelled as \<open>string\<close> (a list of \<open>char\<close>).
  \<open>strings.ToLower\<close> is modelled on the ASCII range: an upper-case ASCII letter is the
  lower-case one with bit 5 set. The two patterns the program compares against
  (\<open>docprops/\<close> and \<open>meta.xml\<close>) and the extensions it recognises contain neither
  \<open>k\<close> nor \<open>i\<close>, the only ASCII letters that a non-ASCII rune lower-cases to, so the
  ASCII model decides the same comparisons on them.
\<close>

definition toLowerChar :: "char \<Rightarrow> char" where
  "toLowerChar c =
     (if 65 \<le> (of_char c :: nat) \<and> (of_char c :: nat) \<le> 90
      then (case c of Char b0 b1 b2 b3 b4 b5 b6 b7 \<Rightarrow> Char b0 b1 b2 b3 b4 True b6 b7)
      else c)"

definition toLower :: "string \<Rightarrow> string" where
  "toLower s = map toLowerChar s"

text \<open>\<open>strings.HasPrefix(s, prefix)\<close>: \<open>len(s) >= len(prefix) && s[:len(prefix)] == prefix\<close>.\<close>

definition hasPrefix :: "string \<Rightarrow> string \<Rightarrow> bool" where
  "hasPrefix s p = (length p \<le> length s \<and> take (length p) s = p)"

text \<open>\<open>strings.TrimPrefix(s, prefix)\<close>.\<close>

definition trimPrefix :: "string \<Rightarrow> string \<Rightarrow> string" where
  "trimPrefix s p = (if hasPrefix s p then drop (length p) s else s)"

text \<open>
  \<open>strings.TrimSpace\<close> on the ASCII white space (tab, line feed, vertical tab, form
  feed, carriage return, space).
\<close>

definition isSpace :: "char \<Rightarrow> bool" where
  "isSpace c = ((9 \<le> (of_char c :: nat) \<and> (of_char c :: nat) \<le> 13) \<or> (of_char c :: nat) = 32)"

definition trimSpace :: "string \<Rightarrow> string" where
  "trimSpace s = rev (dropWhile isSpace (rev (dropWhile isSpace s)))"

text \<open>\<open>strings.Split(csv, ",")\<close>: a string with n commas gives n + 1 pieces.\<close>

fun splitComma :: "string \<Rightarrow> string list" where
  "splitComma [] = [[]]"
| "splitComma (c # cs) =
     (if c = CHR '','' then [] # splitComma cs
      else (case splitComma cs of [] \<Rightarrow> [[c]] | x # xs \<Rightarrow> (c # x) # xs))"

text \<open>
  \<open>filepath.Ext\<close>: scanning from the end of the path, the suffix that starts at the
  last dot of the last path element; empty when a separator comes first or there is no
  dot. The separator is \<open>/\<close>.
\<close>

fun extScan :: "string \<Rightarrow> string \<Rightarrow> string" where
  "extScan [] acc = []"
| "extScan (c # rs) acc =
     (if c = CHR ''/'' then []
      else if c = CHR ''.'' then c # acc
      else extScan rs (c # acc))"

definition filepath_Ext :: "string \<Rightarrow> string" where
  "filepath_Ext path = extScan (rev path) []"


section \<open>Supported types and the small helpers of main.go\<close>

definition openXMLSet :: "string set" where
  "openXMLSet = {''.docx'', ''.xlsx'', ''.pptx''}"

definition openDocSet :: "string set" where
  "openDocSet = {''.odt'', ''.ods'', ''.odp''}"

definition imageSet :: "string set" where
  "imageSet = {''.jpg'', ''.jpeg'', ''.png''}"

definition isSupportedExt :: "string \<Rightarrow> bool" where
  "isSupportedExt ext =
     (if ext \<in> openXMLSet \<or> ext \<in> openDocSet \<or> ext \<in> imageSet then True
      else if ext = ''.pdf'' then True
      else False)"

definition trimDot :: "string \<Rightarrow> string" where
  "trimDot ext = trimPrefix ext ''.''"

text \<open>
  \<open>toSet\<close>: a \<open>map[string]bool\<close> that only ever stores \<open>true\<close> is a set of keys;
  looking up a missing key gives \<open>false\<close>, which is non-membership.
\<close>

definition toSet :: "string \<Rightarrow> string set" where
  "toSet csv =
     (if trimSpace csv = [] then {}
      else set (filter (\<lambda>v. v \<noteq> [])
                 (map (\<lambda>v. trimDot (trimSpace (toLower v))) (splitComma csv))))"


section \<open>The entry predicates of the two container families\<close>

text \<open>The closure passed to \<open>rewriteZip\<close> by \<open>scrubOpenXML\<close>; \<open>True\<close> keeps the entry.\<close>

definition keepOpenXML :: "string \<Rightarrow> bool" where
  "keepOpenXML name =
     (let lower = toLower name in
      if hasPrefix lower ''docprops/'' then False else True)"

text \<open>The closure passed to \<open>rewriteZip\<close> by \<open>scrubOpenDocument\<close>.\<close>

definition keepOpenDocument :: "string \<Rightarrow> bool" where
  "keepOpenDocument name =
     (let lower = toLower name in
      if lower = ''meta.xml'' then False else True)"

text \<open>
  The specification's wording, independent of how the code compares: two names are equal
  ignoring case when they have the same length and agree letter by letter up to ASCII
  case; a name starts with a prefix ignoring case when its first characters do.
\<close>

definition sameLetter :: "char \<Rightarrow> char \<Rightarrow> bool" where
  "sameLetter a b = (toLowerChar a = toLowerChar b)"

fun startsWithIgnoringCase :: "string \<Rightarrow> string \<Rightarrow> bool" where
  "startsWithIgnoringCase [] s = True"
| "startsWithIgnoringCase (p # ps) [] = False"
| "startsWithIgnoringCase (p # ps) (c # cs) = (sameLetter p c \<and> startsWithIgnoringCase ps cs)"

fun equalsIgnoringCase :: "string \<Rightarrow> string \<Rightarrow> bool" where
  "equalsIgnoringCase [] [] = True"
| "equalsIgnoringCase (p # ps) [] = False"
| "equalsIgnoringCase [] (c # cs) = False"
| "equalsIgnoringCase (p # ps) (c # cs) = (sameLetter p c \<and> equalsIgnoringCase ps cs)"


section \<open>Classification of paths (the discovery part of main)\<close>

datatype fatal = NoAccess | WalkFailed | NotInInclude | InExclude | UnsupportedType string

datatype verdict = Candidate | Skipped | Fatal fatal

text \<open>The body of the \<open>filepath.WalkDir\<close> callback for an entry that is not a directory.\<close>

definition walkVisit :: "string set \<Rightarrow> string set \<Rightarrow> string \<Rightarrow> verdict" where
  "walkVisit inc exc p =
     (let ext = toLower (filepath_Ext p) in
      if inc \<noteq> {} \<and> trimDot ext \<notin> inc then Skipped
      else if trimDot ext \<in> exc then Skipped
      else if isSupportedExt ext then Candidate
      else Skipped)"

text \<open>The \<open>else\<close> branch of main: the input path is a single file; \<open>log.Fatalf\<close> ends the run.\<close>

definition singleInput :: "string set \<Rightarrow> string set \<Rightarrow> string \<Rightarrow> verdict" where
  "singleInput inc exc p =
     (let ext = toLower (filepath_Ext p) in
      if inc \<noteq> {} \<and> trimDot ext \<notin> inc then Fatal NotInInclude
      else if trimDot ext \<in> exc then Fatal InExclude
      else if \<not> isSupportedExt ext then Fatal (UnsupportedType ext)
      else Candidate)"


section \<open>Files, archives and the operating system\<close>

type_synonym path = string

type_synonym bytes = "nat list"

text \<open>
  An archive entry as \<open>archive/zip\<close> hands it to the program: the header fields the
  program reads (\<open>zf.Name\<close>, \<open>zf.Method\<close>, \<open>zf.Mode()\<close>, \<open>zf.Modified\<close>) and what
  reading the entry gives. \<open>OpenFails\<close> is an entry for which \<open>zf.Open()\<close> returns an
  error (an unsupported compression method, a bad offset); \<open>ReadFails\<close> one that opens
  but whose stream breaks while it is copied (corrupt data, a checksum mismatch).
\<close>

datatype zdata = Data bytes | OpenFails | ReadFails

record zentry =
  Name :: string
  Method :: nat
  Mode :: nat
  Modified :: int
  payload :: zdata

datatype imgfmt = JPEG | PNG

text \<open>
  What a file holds, as the two parsers of the program see it: \<open>Zip es\<close> is a file for
  which \<open>zip.NewReader\<close> succeeds and lists the entries \<open>es\<close> in directory order;
  \<open>Picture f px meta\<close> is a file that \<open>image.Decode\<close> decodes (format, pixels,
  embedded metadata); \<open>Raw bs\<close> is any other file.
\<close>

datatype content = Raw bytes | Zip "zentry list" | Picture imgfmt bytes bytes

datatype oserr = IOFault | NotFound

datatype call =
    Stat path | OpenRead path | ReadAll path | Create path | WriteTo path
  | CloseFile path | Rename path path | Remove path | Sleep | Walk path

text \<open>
  The world the program runs in. \<open>files\<close> maps the path of a regular file to its
  content; \<open>dirs\<close> maps the path of a directory to the regular files beneath it, in the
  lexical order in which \<open>filepath.WalkDir\<close> reports them. \<open>faults\<close> schedules the
  failures of the environment: each fallible system call takes the next element, \<open>None\<close>
  lets it proceed and \<open>Some junk\<close> makes it fail, \<open>junk\<close> being what an interrupted
  write leaves in its destination; an empty schedule fails nothing. \<open>clock\<close> is
  \<open>time.Now().Unix()\<close>. \<open>trace\<close> records the calls made, oldest first.
\<close>

record world =
  files :: "path \<Rightarrow> content option"
  dirs :: "path \<Rightarrow> path list option"
  faults :: "content option list"
  clock :: int
  trace :: "call list"

definition fault :: "world \<Rightarrow> content option" where
  "fault w = (case faults w of [] \<Rightarrow> None | f # fs \<Rightarrow> f)"

definition called :: "call \<Rightarrow> world \<Rightarrow> world" where
  "called c w = w\<lparr>faults := tl (faults w), trace := trace w @ [c]\<rparr>"

text \<open>\<open>os.Stat\<close>: \<open>Some isDir\<close> when the path exists, \<open>None\<close> when it returns an error.\<close>

definition osStat :: "path \<Rightarrow> world \<Rightarrow> bool option \<times> world" where
  "osStat p w =
     (if dirs w p \<noteq> None then Some True
      else if files w p \<noteq> None then Some False
      else None,
      w\<lparr>trace := trace w @ [Stat p]\<rparr>)"

definition osOpen :: "path \<Rightarrow> world \<Rightarrow> oserr option \<times> world" where
  "osOpen p w =
     (case fault w of
        Some junk \<Rightarrow> (Some IOFault, called (OpenRead p) w)
      | None \<Rightarrow>
          (case files w p of
             None \<Rightarrow> (Some NotFound, called (OpenRead p) w)
           | Some c \<Rightarrow> (None, called (OpenRead p) w)))"

text \<open>\<open>os.Create\<close> creates the file or truncates an existing one.\<close>

definition osCreate :: "path \<Rightarrow> world \<Rightarrow> oserr option \<times> world" where
  "osCreate p w =
     (case fault w of
        Some junk \<Rightarrow> (Some IOFault, called (Create p) w)
      | None \<Rightarrow> (None, (called (Create p) w)\<lparr>files := (files w)(p \<mapsto> Raw [])\<rparr>))"

text \<open>\<open>io.Copy(d, s)\<close> between two open files: the destination receives what the source holds.\<close>

definition ioCopy :: "path \<Rightarrow> path \<Rightarrow> world \<Rightarrow> oserr option \<times> world" where
  "ioCopy dst src w =
     (case fault w of
        Some junk \<Rightarrow> (Some IOFault, (called (WriteTo dst) w)\<lparr>files := (files w)(dst \<mapsto> junk)\<rparr>)
      | None \<Rightarrow> (None, (called (WriteTo dst) w)\<lparr>files := (files w)(dst := files w src)\<rparr>))"

text \<open>\<open>os.Rename\<close> replaces the destination in one step or changes nothing.\<close>

definition osRename :: "path \<Rightarrow> path \<Rightarrow> world \<Rightarrow> oserr option \<times> world" where
  "osRename src dst w =
     (case fault w of
        Some junk \<Rightarrow> (Some IOFault, called (Rename src dst) w)
      | None \<Rightarrow>
          (case files w src of
             None \<Rightarrow> (Some NotFound, called (Rename src dst) w)
           | Some c \<Rightarrow>
               (None, (called (Rename src dst) w)\<lparr>files := ((files w)(src := None))(dst \<mapsto> c)\<rparr>)))"

definition osRemove :: "path \<Rightarrow> world \<Rightarrow> oserr option \<times> world" where
  "osRemove p w =
     (case fault w of
        Some junk \<Rightarrow> (Some IOFault, called (Remove p) w)
      | None \<Rightarrow>
          (case files w p of
             None \<Rightarrow> (Some NotFound, called (Remove p) w)
           | Some c \<Rightarrow> (None, (called (Remove p) w)\<lparr>files := (files w)(p := None)\<rparr>)))"

text \<open>\<open>time.Sleep\<close> changes no file.\<close>

definition sleep :: "world \<Rightarrow> world" where
  "sleep w = w\<lparr>trace := trace w @ [Sleep]\<rparr>"

text \<open>\<open>fmt.Sprintf("%d", n)\<close>.\<close>

definition digitChar :: "nat \<Rightarrow> char" where
  "digitChar d = ''0123456789'' ! d"

fun showNat :: "nat \<Rightarrow> string" where
  "showNat n = (if n < 10 then [digitChar n] else showNat (n div 10) @ [digitChar (n mod 10)])"

declare showNat.simps [simp del]

definition showInt :: "int \<Rightarrow> string" where
  "showInt i = (if i < 0 then CHR ''-'' # showNat (nat (- i)) else showNat (nat i))"


section \<open>Command-line flags\<close>

record flags =
  inputPath :: string
  backup :: bool
  dryRun :: bool
  workers :: int
  withPDF :: bool
  includeExt :: string
  excludeExt :: string
  verbose :: bool


section \<open>copyFile and replaceOriginal\<close>

text \<open>
  \<open>copyFile\<close>; the two deferred \<open>Close\<close> calls change no content and their results are
  dropped by the source.
\<close>

definition copyFile :: "path \<Rightarrow> path \<Rightarrow> world \<Rightarrow> oserr option \<times> world" where
  "copyFile src dst w =
     (case osOpen src w of
        (Some e, w1) \<Rightarrow> (Some e, w1)
      | (None, w1) \<Rightarrow>
          (case osCreate dst w1 of
             (Some e, w2) \<Rightarrow> (Some e, w2)
           | (None, w2) \<Rightarrow> ioCopy dst src w2))"

datatype err =
    Os oserr
  | ZipOpenFailed
  | EntryReadFailed string
  | EntryCopyFailed
  | DecodeFailed
  | UnknownImageType string
  | BackupFailed oserr
  | ReplaceFailed oserr
  | PdfNeedsFlag
  | PdfNotCompiled
  | UnsupportedExt string

text \<open>The backup name chosen by lines 332 to 335 of \<open>replaceOriginal\<close>.\<close>

definition backupPath :: "path \<Rightarrow> world \<Rightarrow> path \<times> world" where
  "backupPath orig w =
     (let bak = orig @ ''.bak'' in
      case osStat bak w of
        (Some d, w1) \<Rightarrow> (orig @ ''.'' @ showInt (clock w1) @ ''.bak'', w1)
      | (None, w1) \<Rightarrow> (bak, w1))"

text \<open>The loop \<open>for i := 0; i < 2; i++\<close> of \<open>replaceOriginal\<close>, entered with \<open>i\<close>.\<close>

function replaceLoop :: "path \<Rightarrow> path \<Rightarrow> nat \<Rightarrow> world \<Rightarrow> err option \<times> world" where
  "replaceLoop orig tmp i w =
     (if i < 2 then
        (case osRename tmp orig w of
           (Some e, w1) \<Rightarrow>
             (if i = 0 then replaceLoop orig tmp (i + 1) (sleep w1)
              else
                (case copyFile tmp orig w1 of
                   (Some e2, w2) \<Rightarrow> (Some (ReplaceFailed e2), w2)
                 | (None, w2) \<Rightarrow> (None, snd (osRemove tmp w2))))
         | (None, w1) \<Rightarrow> (None, w1))
      else (None, w))"
  by pat_completeness auto
termination
  by (relation "measure (\<lambda>(orig, tmp, i, w). 2 - i)") auto

declare replaceLoop.simps [simp del]

definition replaceOriginal :: "flags \<Rightarrow> path \<Rightarrow> path \<Rightarrow> world \<Rightarrow> err option \<times> world" where
  "replaceOriginal fl orig tmp w =
     (if backup fl then
        (case backupPath orig w of
           (bak, w1) \<Rightarrow>
             (case copyFile orig bak w1 of
                (Some e, w2) \<Rightarrow> (Some (BackupFailed e), w2)
              | (None, w2) \<Rightarrow> replaceLoop orig tmp 0 w2))
      else replaceLoop orig tmp 0 w)"


section \<open>Example worlds\<close>

text \<open>
  The flag values \<open>init\<close> registers as defaults (with two workers, the minimum), and
  worlds given by a list of files and a fault schedule, for the concrete runs below.
\<close>

definition flagsDefault :: flags where
  "flagsDefault =
     \<lparr>inputPath = [], backup = True, dryRun = False, workers = 2, withPDF = False,
      includeExt = [], excludeExt = [], verbose = False\<rparr>"

definition exWorld :: "(path \<times> content) list \<Rightarrow> content option list \<Rightarrow> world" where
  "exWorld kvs fs =
     \<lparr>files = map_of kvs, dirs = (\<lambda>p. None), faults = fs, clock = 1700000000, trace = []\<rparr>"


section \<open>rewriteZip\<close>

text \<open>\<open>os.ReadFile\<close>.\<close>

definition osReadFile :: "path \<Rightarrow> world \<Rightarrow> (oserr + content) \<times> world" where
  "osReadFile p w =
     (case fault w of
        Some junk \<Rightarrow> (Inl IOFault, called (ReadAll p) w)
      | None \<Rightarrow>
          (case files w p of
             None \<Rightarrow> (Inl NotFound, called (ReadAll p) w)
           | Some c \<Rightarrow> (Inr c, called (ReadAll p) w)))"

text \<open>\<open>zip.NewReader\<close> on the bytes read: the entries, or an error for a file that is no archive.\<close>

definition zipNewReader :: "content \<Rightarrow> zentry list option" where
  "zipNewReader c = (case c of Zip es \<Rightarrow> Some es | Raw bs \<Rightarrow> None | Picture f px m \<Rightarrow> None)"

text \<open>\<open>zf.Open()\<close>: the reader of the entry's decompressed content, or an error.\<close>

definition zfOpen :: "zentry \<Rightarrow> zdata option" where
  "zfOpen zf = (case payload zf of OpenFails \<Rightarrow> None | Data bs \<Rightarrow> Some (Data bs) | ReadFails \<Rightarrow> Some ReadFails)"

text \<open>
  The \<open>zip.Writer\<close> on the staging file. \<open>zw.CreateHeader\<close> and \<open>io.Copy\<close> write to
  the file and fail when the environment does; \<open>io.Copy\<close> also fails when the entry's
  stream breaks. The writer keeps the entries written so far; \<open>zw.Close\<close> writes the
  central directory, after which the staging file is the archive of exactly these
  entries. The compression the writer applies for the declared method is not modelled:
  an entry is the decompressed content it carries.
\<close>

definition zwCreateHeader :: "path \<Rightarrow> world \<Rightarrow> oserr option \<times> world" where
  "zwCreateHeader tmp w =
     (case fault w of
        Some junk \<Rightarrow> (Some IOFault, (called (WriteTo tmp) w)\<lparr>files := (files w)(tmp \<mapsto> junk)\<rparr>)
      | None \<Rightarrow> (None, called (WriteTo tmp) w))"

definition zwCopy :: "path \<Rightarrow> zdata \<Rightarrow> world \<Rightarrow> (err + bytes) \<times> world" where
  "zwCopy tmp r w =
     (case fault w of
        Some junk \<Rightarrow> (Inl (Os IOFault), (called (WriteTo tmp) w)\<lparr>files := (files w)(tmp \<mapsto> junk)\<rparr>)
      | None \<Rightarrow>
          (case r of
             Data bs \<Rightarrow> (Inr bs, called (WriteTo tmp) w)
           | OpenFails \<Rightarrow> (Inl EntryCopyFailed, called (WriteTo tmp) w)
           | ReadFails \<Rightarrow> (Inl EntryCopyFailed, called (WriteTo tmp) w)))"

definition zwClose :: "path \<Rightarrow> zentry list \<Rightarrow> world \<Rightarrow> oserr option \<times> world" where
  "zwClose tmp acc w =
     (case fault w of
        Some junk \<Rightarrow> (Some IOFault, (called (WriteTo tmp) w)\<lparr>files := (files w)(tmp \<mapsto> junk)\<rparr>)
      | None \<Rightarrow> (None, (called (WriteTo tmp) w)\<lparr>files := (files w)(tmp \<mapsto> Zip acc)\<rparr>))"

definition fClose :: "path \<Rightarrow> world \<Rightarrow> oserr option \<times> world" where
  "fClose tmp w =
     (case fault w of
        Some junk \<Rightarrow> (Some IOFault, called (CloseFile tmp) w)
      | None \<Rightarrow> (None, called (CloseFile tmp) w))"

text \<open>The clean-up of the error paths inside the loop: \<open>zw.Close(); f.Close(); os.Remove(tmp)\<close>.\<close>

definition abandon :: "path \<Rightarrow> zentry list \<Rightarrow> world \<Rightarrow> world" where
  "abandon tmp acc w = snd (osRemove tmp (snd (fClose tmp (snd (zwClose tmp acc w)))))"

text \<open>
  The loop \<open>for _, zf := range zr.File\<close>, with the entries still to visit and the entries
  written so far. The new header takes the name, the method, the mode and the
  modification time of the source entry.
\<close>

fun copyEntries ::
  "(string \<Rightarrow> bool) \<Rightarrow> path \<Rightarrow> zentry list \<Rightarrow> zentry list \<Rightarrow> world \<Rightarrow> (err + zentry list) \<times> world"
where
  "copyEntries keep tmp [] acc w = (Inr acc, w)"
| "copyEntries keep tmp (zf # zfs) acc w =
     (if \<not> keep (Name zf) then copyEntries keep tmp zfs acc w
      else
        (case zfOpen zf of
           None \<Rightarrow> (Inl (EntryReadFailed (Name zf)), abandon tmp acc w)
         | Some r \<Rightarrow>
             (case zwCreateHeader tmp w of
                (Some e, w1) \<Rightarrow> (Inl (Os e), abandon tmp acc w1)
              | (None, w1) \<Rightarrow>
                  (case zwCopy tmp r w1 of
                     (Inl e, w2) \<Rightarrow> (Inl e, abandon tmp acc w2)
                   | (Inr bs, w2) \<Rightarrow>
                       copyEntries keep tmp zfs
                         (acc @ [\<lparr>Name = Name zf, Method = Method zf, Mode = Mode zf,
                                  Modified = Modified zf, payload = Data bs\<rparr>]) w2))))"

text \<open>
  \<open>rewriteZip\<close> up to its last line (lines 262 to 324): the staging of the filtered
  archive at \<open>path + ".tmp"\<close>.
\<close>

definition stageZip :: "path \<Rightarrow> (string \<Rightarrow> bool) \<Rightarrow> world \<Rightarrow> err option \<times> world" where
  "stageZip path keep w =
     (case osReadFile path w of
        (Inl e, w1) \<Rightarrow> (Some (Os e), w1)
      | (Inr data, w1) \<Rightarrow>
          (case zipNewReader data of
             None \<Rightarrow> (Some ZipOpenFailed, w1)
           | Some zr \<Rightarrow>
               (case osCreate (path @ ''.tmp'') w1 of
                  (Some e, w2) \<Rightarrow> (Some (Os e), w2)
                | (None, w2) \<Rightarrow>
                    (case copyEntries keep (path @ ''.tmp'') zr [] w2 of
                       (Inl e, w3) \<Rightarrow> (Some e, w3)
                     | (Inr acc, w3) \<Rightarrow>
                         (case zwClose (path @ ''.tmp'') acc w3 of
                            (Some e, w4) \<Rightarrow>
                              (Some (Os e),
                               snd (osRemove (path @ ''.tmp'') (snd (fClose (path @ ''.tmp'') w4))))
                          | (None, w4) \<Rightarrow>
                              (case fClose (path @ ''.tmp'') w4 of
                                 (Some e, w5) \<Rightarrow> (Some (Os e), snd (osRemove (path @ ''.tmp'') w5))
                               | (None, w5) \<Rightarrow> (None, w5)))))))"

text \<open>\<open>rewriteZip\<close>: the staging, then \<open>return replaceOriginal(path, tmp)\<close>.\<close>

definition rewriteZip :: "flags \<Rightarrow> path \<Rightarrow> (string \<Rightarrow> bool) \<Rightarrow> world \<Rightarrow> err option \<times> world" where
  "rewriteZip fl path keep w =
     (case stageZip path keep w of
        (Some e, w1) \<Rightarrow> (Some e, w1)
      | (None, w1) \<Rightarrow> replaceOriginal fl path (path @ ''.tmp'') w1)"

definition scrubOpenXML :: "flags \<Rightarrow> path \<Rightarrow> world \<Rightarrow> err option \<times> world" where
  "scrubOpenXML fl path w = rewriteZip fl path keepOpenXML w"

definition scrubOpenDocument :: "flags \<Rightarrow> path \<Rightarrow> world \<Rightarrow> err option \<times> world" where
  "scrubOpenDocument fl path w = rewriteZip fl path keepOpenDocument w"



section \<open>scrubImage\<close>

text \<open>
  \<open>image.Decode\<close> succeeds on a file that holds a picture in a registered format (JPEG
  and PNG are registered by the imports) and gives its pixels and format. The encoders
  write the pixels to the staging file without any metadata; an encoder that fails
  leaves what it had written. The pixels are carried over as they are: the loss of a
  JPEG re-encoding is not modelled.
\<close>

definition imageDecode :: "content \<Rightarrow> (bytes \<times> imgfmt) option" where
  "imageDecode c = (case c of Picture f px m \<Rightarrow> Some (px, f) | Raw bs \<Rightarrow> None | Zip es \<Rightarrow> None)"

definition encodeTo :: "path \<Rightarrow> imgfmt \<Rightarrow> bytes \<Rightarrow> world \<Rightarrow> oserr option \<times> world" where
  "encodeTo tmp f px w =
     (case fault w of
        Some junk \<Rightarrow> (Some IOFault, (called (WriteTo tmp) w)\<lparr>files := (files w)(tmp \<mapsto> junk)\<rparr>)
      | None \<Rightarrow> (None, (called (WriteTo tmp) w)\<lparr>files := (files w)(tmp \<mapsto> Picture f px [])\<rparr>))"

text \<open>
  \<open>scrubImage\<close>. The deferred \<open>in.Close()\<close> and \<open>out.Close()\<close> run when the function
  returns and change no content.
\<close>

definition scrubImage :: "flags \<Rightarrow> path \<Rightarrow> string \<Rightarrow> world \<Rightarrow> err option \<times> world" where
  "scrubImage fl path ext w =
     (case osOpen path w of
        (Some e, w1) \<Rightarrow> (Some (Os e), w1)
      | (None, w1) \<Rightarrow>
          (case Option.bind (files w1 path) imageDecode of
             None \<Rightarrow> (Some DecodeFailed, w1)
           | Some (img, format) \<Rightarrow>
               (case osCreate (path @ ''.tmp'') w1 of
                  (Some e, w2) \<Rightarrow> (Some (Os e), w2)
                | (None, w2) \<Rightarrow>
                    (if ext = ''.jpg'' \<or> ext = ''.jpeg'' then
                       (case encodeTo (path @ ''.tmp'') JPEG img w2 of
                          (Some e, w3) \<Rightarrow> (Some (Os e), w3)
                        | (None, w3) \<Rightarrow> replaceOriginal fl path (path @ ''.tmp'') w3)
                     else if ext = ''.png'' then
                       (case encodeTo (path @ ''.tmp'') PNG img w2 of
                          (Some e, w3) \<Rightarrow> (Some (Os e), w3)
                        | (None, w3) \<Rightarrow> replaceOriginal fl path (path @ ''.tmp'') w3)
                     else (Some (UnknownImageType ext), w2)))))"


section \<open>scrubFile\<close>

text \<open>The placeholder \<open>scrubPDFWithPDFCPU\<close> only returns its error.\<close>

definition scrubPDFWithPDFCPU :: "path \<Rightarrow> world \<Rightarrow> err option \<times> world" where
  "scrubPDFWithPDFCPU path w = (Some PdfNotCompiled, w)"

definition scrubPDF :: "path \<Rightarrow> world \<Rightarrow> err option \<times> world" where
  "scrubPDF path w = scrubPDFWithPDFCPU path w"

definition scrubFile :: "flags \<Rightarrow> path \<Rightarrow> world \<Rightarrow> err option \<times> world" where
  "scrubFile fl p w =
     (let ext = toLower (filepath_Ext p) in
      if ext \<in> openXMLSet then scrubOpenXML fl p w
      else if ext \<in> openDocSet then scrubOpenDocument fl p w
      else if ext \<in> imageSet then scrubImage fl p ext w
      else if ext = ''.pdf'' then
        (if \<not> withPDF fl then (Some PdfNeedsFlag, w) else scrubPDF p w)
      else (Some (UnsupportedExt ext), w))"


section \<open>The worker pool of main\<close>

text \<open>
  The goroutines started by main, as an interleaving of their steps. A worker is idle
  (at \<open>for f := range jobs\<close>), or has finished \<open>scrubFile\<close> and is about to run
  \<open>add\<close> on the success counter (\<open>Loading True\<close>) or on the failure counter
  (\<open>Loading False\<close>), or is inside \<open>add\<close> between reading the counter and writing it
  back (\<open>Adding b v\<close>, with the value \<open>v\<close> it read), or has left its loop (\<open>Done\<close>).
  \<open>add\<close> is \<open>*ptr += delta\<close> with no lock and no atomic operation: a read and a later
  write, between which other workers may run. The counters are \<open>int64\<close>; they count
  files, far below the range of the type, so they are integers here.

  \<open>jobs\<close> is the channel: main fills it without blocking (its capacity is the number of
  files) and closes it, and a worker that finds it empty before that only waits, so the
  channel is taken as filled and closed from the start. One call of \<open>scrubFile\<close> is one
  step. \<open>outcomes\<close> records each finished call with its result, in order of completion;
  the entries with an error are the \<open>[FAIL]\<close> lines of the log.
\<close>

datatype wstate = Idle | Loading bool | Adding bool int | Done

record pool =
  jobs :: "path list"
  wstates :: "wstate list"
  okCount :: int
  failCount :: int
  outcomes :: "(path \<times> err option) list"
  env :: world

definition initPool :: "flags \<Rightarrow> path list \<Rightarrow> world \<Rightarrow> pool" where
  "initPool fl fs w =
     \<lparr>jobs = fs, wstates = replicate (nat (workers fl)) Idle, okCount = 0, failCount = 0,
      outcomes = [], env = w\<rparr>"

text \<open>One step of worker \<open>i\<close>.\<close>

definition stepWorker :: "flags \<Rightarrow> nat \<Rightarrow> pool \<Rightarrow> pool" where
  "stepWorker fl i p =
     (case wstates p ! i of
        Idle \<Rightarrow>
          (case jobs p of
             [] \<Rightarrow> p\<lparr>wstates := (wstates p)[i := Done]\<rparr>
           | f # fs \<Rightarrow>
               (case scrubFile fl f (env p) of
                  (e, w') \<Rightarrow>
                    p\<lparr>jobs := fs, wstates := (wstates p)[i := Loading (e = None)],
                      outcomes := outcomes p @ [(f, e)], env := w'\<rparr>))
      | Loading b \<Rightarrow>
          p\<lparr>wstates := (wstates p)[i := Adding b (if b then okCount p else failCount p)]\<rparr>
      | Adding b v \<Rightarrow>
          (if b then p\<lparr>okCount := v + 1, wstates := (wstates p)[i := Idle]\<rparr>
           else p\<lparr>failCount := v + 1, wstates := (wstates p)[i := Idle]\<rparr>)
      | Done \<Rightarrow> p)"

text \<open>
  The scheduler: the workers that can still move, and a run under a schedule, each
  element of which picks one of them (by its remainder). Every interleaving of the
  workers is the run of some schedule.
\<close>

definition active :: "pool \<Rightarrow> nat list" where
  "active p = filter (\<lambda>i. wstates p ! i \<noteq> Done) [0..<length (wstates p)]"

definition step :: "flags \<Rightarrow> nat \<Rightarrow> pool \<Rightarrow> pool" where
  "step fl k p =
     (case active p of
        [] \<Rightarrow> p
      | a # as \<Rightarrow> stepWorker fl ((a # as) ! (k mod length (a # as))) p)"

fun exec :: "flags \<Rightarrow> nat list \<Rightarrow> pool \<Rightarrow> pool" where
  "exec fl [] p = p"
| "exec fl (k # ks) p = exec fl ks (step fl k p)"

text \<open>
  \<open>wg.Wait()\<close> returns once every worker has left its loop; \<open>None\<close> is a main still
  waiting when the schedule ends.
\<close>

definition runPool :: "flags \<Rightarrow> nat list \<Rightarrow> path list \<Rightarrow> world \<Rightarrow> pool option" where
  "runPool fl sched fs w =
     (let p = exec fl sched (initPool fl fs w) in
      if active p = [] then Some p else None)"


section \<open>main\<close>

datatype msg =
    Usage | FatalLine fatal | NoMatch | Found nat | Item path
  | FailLine path err | OkLine path | Summary int int

datatype status = Returned | Exit nat

text \<open>\<open>filepath.WalkDir\<close> on a directory: the regular files it reports, or its error.\<close>

definition osWalk :: "path \<Rightarrow> world \<Rightarrow> (oserr + path list) \<times> world" where
  "osWalk p w =
     (case fault w of
        Some junk \<Rightarrow> (Inl IOFault, called (Walk p) w)
      | None \<Rightarrow>
          (case dirs w p of
             None \<Rightarrow> (Inl NotFound, called (Walk p) w)
           | Some ps \<Rightarrow> (Inr ps, called (Walk p) w)))"

text \<open>Lines 74 to 118 of main: the candidate files, or the fatal error that ends the run.\<close>

definition discover :: "flags \<Rightarrow> world \<Rightarrow> (fatal + path list) \<times> world" where
  "discover fl w =
     (let inc = toSet (includeExt fl); exc = toSet (excludeExt fl) in
      case osStat (inputPath fl) w of
        (None, w1) \<Rightarrow> (Inl NoAccess, w1)
      | (Some True, w1) \<Rightarrow>
          (case osWalk (inputPath fl) w1 of
             (Inl e, w2) \<Rightarrow> (Inl WalkFailed, w2)
           | (Inr ps, w2) \<Rightarrow> (Inr (filter (\<lambda>p. walkVisit inc exc p = Candidate) ps), w2))
      | (Some False, w1) \<Rightarrow>
          (case singleInput inc exc (inputPath fl) of
             Fatal f \<Rightarrow> (Inl f, w1)
           | Candidate \<Rightarrow> (Inr [inputPath fl], w1)
           | Skipped \<Rightarrow> (Inr [], w1)))"

text \<open>The log lines of the workers: a \<open>[FAIL]\<close> line per error, an \<open>[OK]\<close> line when verbose.\<close>

definition logLines :: "flags \<Rightarrow> (path \<times> err option) list \<Rightarrow> msg list" where
  "logLines fl os =
     concat (map (\<lambda>(f, e). case e of Some x \<Rightarrow> [FailLine f x]
                               | None \<Rightarrow> if verbose fl then [OkLine f] else []) os)"

definition main :: "flags \<Rightarrow> nat list \<Rightarrow> world \<Rightarrow> ((msg list \<times> status) \<times> world) option" where
  "main fl sched w =
     (if inputPath fl = [] then Some (([Usage], Exit 2), w)
      else
        (case discover fl w of
           (Inl f, w1) \<Rightarrow> Some (([FatalLine f], Exit 1), w1)
         | (Inr fs, w1) \<Rightarrow>
             if length fs = 0 then Some (([NoMatch], Returned), w1)
             else if dryRun fl then Some ((Found (length fs) # map Item fs, Returned), w1)
             else
               (case runPool fl sched fs w1 of
                  None \<Rightarrow> None
                | Some p \<Rightarrow>
                    Some ((Found (length fs) # logLines fl (outcomes p)
                             @ [Summary (okCount p) (failCount p)], Returned),
                          env p))))"


section \<open>Theorems\<close>

subsection \<open>Strings\<close>

lemma toLower_literals:
  "toLower ''docProps/'' = ''docprops/''"
  "toLower ''meta.xml'' = ''meta.xml''"
  by (simp_all add: toLower_def toLowerChar_def)

lemma hasPrefix_toLower_iff:
  "hasPrefix (toLower s) (toLower p) = startsWithIgnoringCase p s"
proof (induction p s rule: startsWithIgnoringCase.induct)
  case (1 s)
  show ?case by (simp add: hasPrefix_def toLower_def)
next
  case (2 p ps)
  show ?case by (simp add: hasPrefix_def toLower_def)
next
  case (3 p ps c cs)
  then show ?case by (auto simp: hasPrefix_def toLower_def sameLetter_def)
qed

lemma toLower_eq_iff:
  "(toLower s = toLower p) = equalsIgnoringCase p s"
proof (induction p s rule: equalsIgnoringCase.induct)
  case 1
  show ?case by (simp add: toLower_def)
next
  case (2 p ps)
  show ?case by (simp add: toLower_def)
next
  case (3 c cs)
  show ?case by (simp add: toLower_def)
next
  case (4 p ps c cs)
  then show ?case by (auto simp: toLower_def sameLetter_def)
qed

lemma startsWithIgnoringCase_append:
  "startsWithIgnoringCase p (p @ rest)"
  by (induction p) (simp_all add: sameLetter_def)

subsection \<open>Entry predicates\<close>

text \<open>
  C2. The OpenXML predicate keeps an entry exactly when its name does not start, ignoring
  case, with \<open>docProps/\<close>: every entry beneath that folder is dropped, in any spelling,
  and every other entry is kept. The OpenDocument predicate keeps an entry exactly when
  its name is not, ignoring case, \<open>meta.xml\<close>: the manifest and a nested
  \<open>.../meta.xml\<close> are kept.
\<close>

theorem C2_scrub_predicates:
  "keepOpenXML name = (\<not> startsWithIgnoringCase ''docProps/'' name)
   \<and> keepOpenXML (''docProps/'' @ rest) = False
   \<and> keepOpenXML ''DOCPROPS/app.xml'' = False
   \<and> keepOpenXML ''word/document.xml'' = True
   \<and> keepOpenXML ''docProps'' = True
   \<and> keepOpenDocument name = (\<not> equalsIgnoringCase ''meta.xml'' name)
   \<and> keepOpenDocument ''Meta.XML'' = False
   \<and> keepOpenDocument ''META-INF/manifest.xml'' = True
   \<and> keepOpenDocument (d # ''/meta.xml'') = True
   \<and> keepOpenDocument ''Pictures/meta.xml'' = True"
proof -
  have a: "keepOpenXML n = (\<not> startsWithIgnoringCase ''docProps/'' n)" for n
    using hasPrefix_toLower_iff [of n "''docProps/''"]
    by (simp add: keepOpenXML_def toLower_literals)
  have a1: "keepOpenXML (''docProps/'' @ rest) = False"
    using startsWithIgnoringCase_append [of "''docProps/''" rest]
    unfolding a by simp
  have a2: "keepOpenXML ''DOCPROPS/app.xml'' = False"
    unfolding a by (simp add: sameLetter_def toLowerChar_def)
  have a3: "keepOpenXML ''word/document.xml'' = True"
    unfolding a by (simp add: sameLetter_def toLowerChar_def)
  have a4: "keepOpenXML ''docProps'' = True"
    unfolding a by (simp add: sameLetter_def toLowerChar_def)
  have b: "keepOpenDocument n = (\<not> equalsIgnoringCase ''meta.xml'' n)" for n
    using toLower_eq_iff [of n "''meta.xml''"]
    by (simp add: keepOpenDocument_def toLower_literals)
  have b1: "keepOpenDocument ''Meta.XML'' = False"
    unfolding b by (simp add: sameLetter_def toLowerChar_def)
  have b2: "keepOpenDocument ''META-INF/manifest.xml'' = True"
    unfolding b by (simp add: sameLetter_def toLowerChar_def)
  have b3: "keepOpenDocument (d # ''/meta.xml'') = True"
    unfolding b by simp
  have b4: "keepOpenDocument ''Pictures/meta.xml'' = True"
    unfolding b by (simp add: sameLetter_def toLowerChar_def)
  from a [of name] a1 a2 a3 a4 b [of name] b1 b2 b3 b4 show ?thesis
    by blast
qed

subsection \<open>Classification\<close>

lemmas classify_eval = filepath_Ext_def toLower_def toLowerChar_def trimDot_def trimPrefix_def
  hasPrefix_def isSupportedExt_def openXMLSet_def openDocSet_def imageSet_def

text \<open>
  C9. Classification follows one precedence, for a file met while walking a directory and
  for the single named input alike: a non-empty include set that lacks the lower-cased
  extension (without its dot) stops the file; otherwise membership in the exclude set
  stops it, whatever the include set is; otherwise an unrecognised extension is skipped
  silently in a walk and is a fatal error for the single input; otherwise the file is a
  candidate. Only the lower-cased extension of the path matters.
\<close>

theorem C9_classification_precedence:
  "(inc \<noteq> {} \<and> trimDot (toLower (filepath_Ext p)) \<notin> inc \<longrightarrow>
      walkVisit inc exc p = Skipped \<and> singleInput inc exc p = Fatal NotInInclude)
   \<and> (\<not> (inc \<noteq> {} \<and> trimDot (toLower (filepath_Ext p)) \<notin> inc)
        \<and> trimDot (toLower (filepath_Ext p)) \<in> exc \<longrightarrow>
      walkVisit inc exc p = Skipped \<and> singleInput inc exc p = Fatal InExclude)
   \<and> (trimDot (toLower (filepath_Ext p)) \<in> exc \<longrightarrow>
      walkVisit inc' exc p = Skipped \<and> singleInput inc' exc p \<noteq> Candidate)
   \<and> (\<not> (inc \<noteq> {} \<and> trimDot (toLower (filepath_Ext p)) \<notin> inc)
        \<and> trimDot (toLower (filepath_Ext p)) \<notin> exc
        \<and> \<not> isSupportedExt (toLower (filepath_Ext p)) \<longrightarrow>
      walkVisit inc exc p = Skipped
      \<and> singleInput inc exc p = Fatal (UnsupportedType (toLower (filepath_Ext p))))
   \<and> (\<not> (inc \<noteq> {} \<and> trimDot (toLower (filepath_Ext p)) \<notin> inc)
        \<and> trimDot (toLower (filepath_Ext p)) \<notin> exc
        \<and> isSupportedExt (toLower (filepath_Ext p)) \<longrightarrow>
      walkVisit inc exc p = Candidate \<and> singleInput inc exc p = Candidate)
   \<and> (toLower (filepath_Ext p) = toLower (filepath_Ext q) \<longrightarrow>
      walkVisit inc exc p = walkVisit inc exc q \<and> singleInput inc exc p = singleInput inc exc q)"
  by (simp add: walkVisit_def singleInput_def Let_def)

theorem C9_classification_witness:
  "walkVisit {''docx''} {} ''d/b.PNG'' = Skipped
   \<and> singleInput {''docx''} {} ''d/b.PNG'' = Fatal NotInInclude
   \<and> walkVisit {} {''png''} ''d/b.PNG'' = Skipped
   \<and> singleInput {} {''png''} ''d/b.PNG'' = Fatal InExclude
   \<and> walkVisit {''png''} {''png''} ''d/b.PNG'' = Skipped
   \<and> singleInput {''png''} {''png''} ''d/b.PNG'' \<noteq> Candidate
   \<and> walkVisit {} {} ''d/notes.txt'' = Skipped
   \<and> singleInput {} {} ''d/notes.txt'' = Fatal (UnsupportedType ''.txt'')
   \<and> walkVisit {''docx''} {''png''} ''d/Report.DOCX'' = Candidate
   \<and> singleInput {''docx''} {''png''} ''d/Report.DOCX'' = Candidate
   \<and> walkVisit {} {} ''y.oDT'' = walkVisit {} {} ''d/x.Odt''"
proof -
  have a: "walkVisit {''docx''} {} ''d/b.PNG'' = Skipped
           \<and> singleInput {''docx''} {} ''d/b.PNG'' = Fatal NotInInclude"
    using C9_classification_precedence [of "{''docx''}" "''d/b.PNG''" "{}" "{}" "''d/b.PNG''"]
    by (simp add: classify_eval)
  have b: "walkVisit {} {''png''} ''d/b.PNG'' = Skipped
           \<and> singleInput {} {''png''} ''d/b.PNG'' = Fatal InExclude
           \<and> walkVisit {''png''} {''png''} ''d/b.PNG'' = Skipped
           \<and> singleInput {''png''} {''png''} ''d/b.PNG'' \<noteq> Candidate"
    using C9_classification_precedence [of "{}" "''d/b.PNG''" "{''png''}" "{''png''}" "''d/b.PNG''"]
    by (simp add: classify_eval)
  have c: "walkVisit {} {} ''d/notes.txt'' = Skipped
           \<and> singleInput {} {} ''d/notes.txt'' = Fatal (UnsupportedType ''.txt'')"
    using C9_classification_precedence [of "{}" "''d/notes.txt''" "{}" "{}" "''d/notes.txt''"]
    by (simp add: classify_eval)
  have d: "walkVisit {''docx''} {''png''} ''d/Report.DOCX'' = Candidate
           \<and> singleInput {''docx''} {''png''} ''d/Report.DOCX'' = Candidate"
    using C9_classification_precedence
      [of "{''docx''}" "''d/Report.DOCX''" "{''png''}" "{}" "''d/Report.DOCX''"]
    by (simp add: classify_eval)
  have "toLower (filepath_Ext ''y.oDT'') = toLower (filepath_Ext ''d/x.Odt'')"
    by (simp add: classify_eval)
  with C9_classification_precedence [of "{}" "''y.oDT''" "{}" "{}" "''d/x.Odt''"]
  have e: "walkVisit {} {} ''y.oDT'' = walkVisit {} {} ''d/x.Odt''"
    by blast
  from a b c d e show ?thesis by blast
qed

subsection \<open>Committing a staged file\<close>

lemmas prims = fault_def called_def osStat_def osOpen_def osCreate_def ioCopy_def osRename_def
  osRemove_def sleep_def

lemma replaceLoop_0:
  "replaceLoop orig tmp 0 w =
     (case osRename tmp orig w of
        (Some e, w1) \<Rightarrow> replaceLoop orig tmp (Suc 0) (sleep w1)
      | (None, w1) \<Rightarrow> (None, w1))"
  by (subst replaceLoop.simps) (simp split: prod.splits option.splits)

lemma replaceLoop_1:
  "replaceLoop orig tmp (Suc 0) w =
     (case osRename tmp orig w of
        (Some e, w1) \<Rightarrow>
          (case copyFile tmp orig w1 of
             (Some e2, w2) \<Rightarrow> (Some (ReplaceFailed e2), w2)
           | (None, w2) \<Rightarrow> (None, snd (osRemove tmp w2)))
      | (None, w1) \<Rightarrow> (None, w1))"
  by (subst replaceLoop.simps) (simp split: prod.splits option.splits)

lemma copyFile_other:
  "copyFile src dst w = (r, w') \<Longrightarrow> p \<noteq> dst \<Longrightarrow> files w' p = files w p"
  by (auto simp: copyFile_def prims split: option.splits prod.splits if_splits)

lemma copyFile_ok:
  "copyFile src dst w = (None, w') \<Longrightarrow> src \<noteq> dst \<Longrightarrow>
     files w' dst = files w src \<and> files w src \<noteq> None"
  by (auto simp: copyFile_def prims split: option.splits prod.splits if_splits)

lemma copyFile_trace:
  "copyFile src dst w = (r, w') \<Longrightarrow>
     \<exists>cs. trace w' = trace w @ cs \<and> set cs \<subseteq> {OpenRead src, Create dst, WriteTo dst}"
  by (auto simp: copyFile_def prims split: option.splits prod.splits if_splits)

lemma backupPath_cases:
  "fst (backupPath orig w) =
     (if files w (orig @ ''.bak'') = None \<and> dirs w (orig @ ''.bak'') = None
      then orig @ ''.bak'' else orig @ ''.'' @ showInt (clock w) @ ''.bak'')"
  "files (snd (backupPath orig w)) = files w"
  "trace (snd (backupPath orig w)) = trace w @ [Stat (orig @ ''.bak'')]"
  "faults (snd (backupPath orig w)) = faults w"
  by (auto simp: backupPath_def osStat_def Let_def split: option.splits prod.splits)

lemma tmp_not_bak: "a @ ''.tmp'' \<noteq> b @ ''.bak''"
proof
  assume "a @ ''.tmp'' = b @ ''.bak''"
  then have "(a @ ''.tm'') @ ''p'' = (b @ ''.ba'') @ ''k''" by simp
  then have "CHR ''p'' = CHR ''k''" by (simp only: append1_eq_conv)
  then show False by simp
qed

lemma orig_not_backupPath: "orig \<noteq> fst (backupPath orig w)"
proof
  assume "orig = fst (backupPath orig w)"
  then have "length orig = length (fst (backupPath orig w))" by simp
  then show False by (simp add: backupPath_cases split: if_splits)
qed

lemma tmp_not_backupPath: "orig @ ''.tmp'' \<noteq> fst (backupPath orig w)"
  using tmp_not_bak [of orig orig] tmp_not_bak [of orig "orig @ ''.'' @ showInt (clock w)"]
  by (simp add: backupPath_cases split: if_splits)


lemma osRename_ok:
  "osRename src dst w = (None, w1) \<Longrightarrow>
     files w1 = ((files w)(src := None))(dst := files w src) \<and> files w src \<noteq> None
     \<and> trace w1 = trace w @ [Rename src dst]"
  by (auto simp: prims split: option.splits)

lemma osRename_fail:
  "osRename src dst w = (Some e, w1) \<Longrightarrow>
     files w1 = files w \<and> trace w1 = trace w @ [Rename src dst]"
  by (auto simp: prims split: option.splits)

lemma sleep_simps [simp]:
  "files (sleep w) = files w" "trace (sleep w) = trace w @ [Sleep]" "faults (sleep w) = faults w"
  by (simp_all add: sleep_def)

lemma copyFile_ok_trace:
  "copyFile src dst w = (None, w') \<Longrightarrow>
     trace w' = trace w @ [OpenRead src, Create dst, WriteTo dst]"
  by (auto simp: copyFile_def prims split: option.splits prod.splits if_splits)

lemma osRemove_effect:
  "trace (snd (osRemove p w)) = trace w @ [Remove p]"
  "q \<noteq> p \<Longrightarrow> files (snd (osRemove p w)) q = files w q"
  "files (snd (osRemove p w)) p = (if fst (osRemove p w) = None then None else files w p)"
  by (auto simp: prims split: option.splits)

text \<open>
  C3. With backup enabled, when copying the original to the backup path fails, the commit
  returns the backup error at once: every file other than the backup path itself, the
  original and the staged file among them, holds what it held before, and the calls made
  are the existence test, the read-only open of the original and the creation and
  writing of the backup file only: no rename, no removal, no write to another path.
\<close>

theorem C3_backup_failure_aborts:
  assumes "backup fl"
      and "backupPath orig w = (bak, w1)"
      and "copyFile orig bak w1 = (Some e, w2)"
  shows "replaceOriginal fl orig tmp w = (Some (BackupFailed e), w2)
         \<and> files w2 orig = files w orig
         \<and> files w2 (orig @ ''.tmp'') = files w (orig @ ''.tmp'')
         \<and> (\<forall>p. p \<noteq> bak \<longrightarrow> files w2 p = files w p)
         \<and> (\<exists>cs. trace w2 = trace w @ Stat (orig @ ''.bak'') # cs
                  \<and> set cs \<subseteq> {OpenRead orig, Create bak, WriteTo bak})"
proof -
  have bak: "bak = fst (backupPath orig w)" and w1: "w1 = snd (backupPath orig w)"
    using assms(2) by simp_all
  have r: "replaceOriginal fl orig tmp w = (Some (BackupFailed e), w2)"
    using assms by (simp add: replaceOriginal_def)
  have other: "files w2 p = files w p" if "p \<noteq> bak" for p
    using copyFile_other [OF assms(3) that] by (simp add: w1 backupPath_cases)
  have o: "files w2 orig = files w orig"
    using other [of orig] orig_not_backupPath [of orig w] by (simp add: bak)
  have t: "files w2 (orig @ ''.tmp'') = files w (orig @ ''.tmp'')"
    using other [of "orig @ ''.tmp''"] tmp_not_backupPath [of orig w] by (simp add: bak)
  obtain cs where "trace w2 = trace w1 @ cs"
      and "set cs \<subseteq> {OpenRead orig, Create bak, WriteTo bak}"
    using copyFile_trace [OF assms(3)] by blast
  then have tr: "\<exists>cs. trace w2 = trace w @ Stat (orig @ ''.bak'') # cs
                  \<and> set cs \<subseteq> {OpenRead orig, Create bak, WriteTo bak}"
    by (simp add: w1 backupPath_cases)
  from r o t other tr show ?thesis by blast
qed


lemmas run_eval = prims copyFile_def backupPath_def Let_def exWorld_def flagsDefault_def
  showInt_def showNat.simps digitChar_def replaceOriginal_def replaceLoop_0 replaceLoop_1

theorem C3_backup_failure_witness:
  "backup flagsDefault
   \<and> fst (replaceOriginal flagsDefault ''a.docx'' ''a.docx.tmp''
        (exWorld [(''a.docx'', Raw [1, 2, 3]), (''a.docx.tmp'', Raw [9])]
           [None, None, Some (Raw [1])])) = Some (BackupFailed IOFault)
   \<and> files (snd (replaceOriginal flagsDefault ''a.docx'' ''a.docx.tmp''
        (exWorld [(''a.docx'', Raw [1, 2, 3]), (''a.docx.tmp'', Raw [9])]
           [None, None, Some (Raw [1])]))) ''a.docx'' = Some (Raw [1, 2, 3])
   \<and> files (snd (replaceOriginal flagsDefault ''a.docx'' ''a.docx.tmp''
        (exWorld [(''a.docx'', Raw [1, 2, 3]), (''a.docx.tmp'', Raw [9])]
           [None, None, Some (Raw [1])]))) ''a.docx.tmp'' = Some (Raw [9])"
proof -
  define w where "w = exWorld [(''a.docx'', Raw [1, 2, 3]), (''a.docx.tmp'', Raw [9])]
           [None, None, Some (Raw [1])]"
  define w1 where "w1 = snd (backupPath ''a.docx'' w)"
  define w2 where "w2 = snd (copyFile ''a.docx'' ''a.docx.bak'' w1)"
  have h1: "backup flagsDefault" by (simp add: flagsDefault_def)
  have h2: "backupPath ''a.docx'' w = (''a.docx.bak'', w1)"
    by (simp add: w1_def w_def prod_eq_iff run_eval)
  have h3: "copyFile ''a.docx'' ''a.docx.bak'' w1 = (Some IOFault, w2)"
    by (simp add: w2_def w1_def w_def prod_eq_iff run_eval)
  have f: "files w ''a.docx'' = Some (Raw [1, 2, 3])" "files w ''a.docx.tmp'' = Some (Raw [9])"
    by (simp_all add: w_def exWorld_def)
  from C3_backup_failure_aborts [OF h1 h2 h3, of "''a.docx.tmp''"] h1 f
  show ?thesis unfolding w_def [symmetric] by simp
qed

text \<open>
  C4, at the input where it fails. A backup already stands at \<open>a.docx.bak\<close> and another
  at \<open>a.docx.1700000000.bak\<close>, and the clock reads 1700000000: the commit finds the
  first name taken, derives the second without testing it, and \<open>copyFile\<close> truncates
  and rewrites it. The commit succeeds and the older backup's content is gone.
\<close>

theorem C4_second_candidate_overwritten:
  "files (exWorld [(''a.docx'', Raw [1]), (''a.docx.tmp'', Raw [2]), (''a.docx.bak'', Raw [3]),
                   (''a.docx.1700000000.bak'', Raw [4])] []) ''a.docx.1700000000.bak''
     = Some (Raw [4])
   \<and> fst (replaceOriginal flagsDefault ''a.docx'' ''a.docx.tmp''
        (exWorld [(''a.docx'', Raw [1]), (''a.docx.tmp'', Raw [2]), (''a.docx.bak'', Raw [3]),
                  (''a.docx.1700000000.bak'', Raw [4])] [])) = None
   \<and> files (snd (replaceOriginal flagsDefault ''a.docx'' ''a.docx.tmp''
        (exWorld [(''a.docx'', Raw [1]), (''a.docx.tmp'', Raw [2]), (''a.docx.bak'', Raw [3]),
                  (''a.docx.1700000000.bak'', Raw [4])] []))) ''a.docx.1700000000.bak''
     = Some (Raw [1])
   \<and> files (snd (replaceOriginal flagsDefault ''a.docx'' ''a.docx.tmp''
        (exWorld [(''a.docx'', Raw [1]), (''a.docx.tmp'', Raw [2]), (''a.docx.bak'', Raw [3]),
                  (''a.docx.1700000000.bak'', Raw [4])] []))) ''a.docx.bak''
     = Some (Raw [3])"
  by (simp add: run_eval)

text \<open>
  C5. The replace step renames the staged file onto the original. If the first rename
  fails it sleeps and renames once more, and no third time; if that fails too it copies
  the staged content over the original and then removes the staged file; if the copy
  fails as well the commit returns the replace error, having made no call that removes
  or writes the staged file, which is left as it was.
\<close>

theorem C5_replace_step:
  "(osRename tmp orig w = (None, w1) \<longrightarrow>
      replaceLoop orig tmp 0 w = (None, w1)
      \<and> trace w1 = trace w @ [Rename tmp orig]
      \<and> files w1 orig = files w tmp)
   \<and> (osRename tmp orig w = (Some e1, w1) \<and> osRename tmp orig (sleep w1) = (None, w2) \<longrightarrow>
      replaceLoop orig tmp 0 w = (None, w2)
      \<and> trace w2 = trace w @ [Rename tmp orig, Sleep, Rename tmp orig]
      \<and> files w2 orig = files w tmp)
   \<and> (osRename tmp orig w = (Some e1, w1) \<and> osRename tmp orig (sleep w1) = (Some e2, w2)
        \<and> copyFile tmp orig w2 = (None, w3) \<longrightarrow>
      replaceLoop orig tmp 0 w = (None, snd (osRemove tmp w3))
      \<and> trace (snd (osRemove tmp w3)) =
          trace w @ [Rename tmp orig, Sleep, Rename tmp orig,
                     OpenRead tmp, Create orig, WriteTo orig, Remove tmp]
      \<and> (tmp \<noteq> orig \<longrightarrow> files (snd (osRemove tmp w3)) orig = files w tmp))
   \<and> (osRename tmp orig w = (Some e1, w1) \<and> osRename tmp orig (sleep w1) = (Some e2, w2)
        \<and> copyFile tmp orig w2 = (Some e3, w3) \<longrightarrow>
      replaceLoop orig tmp 0 w = (Some (ReplaceFailed e3), w3)
      \<and> (\<exists>cs. trace w3 = trace w @ [Rename tmp orig, Sleep, Rename tmp orig] @ cs
               \<and> set cs \<subseteq> {OpenRead tmp, Create orig, WriteTo orig})
      \<and> (tmp \<noteq> orig \<longrightarrow> files w3 tmp = files w tmp))
   \<and> (\<not> backup fl \<longrightarrow> replaceOriginal fl orig tmp w = replaceLoop orig tmp 0 w)
   \<and> (backup fl \<and> backupPath orig w = (bak, wb) \<and> copyFile orig bak wb = (None, wc) \<longrightarrow>
      replaceOriginal fl orig tmp w = replaceLoop orig tmp 0 wc)"
proof -
  have c1: "replaceLoop orig tmp 0 w = (None, w1)
      \<and> trace w1 = trace w @ [Rename tmp orig] \<and> files w1 orig = files w tmp"
    if "osRename tmp orig w = (None, w1)"
    using that osRename_ok [OF that] by (simp add: replaceLoop_0)
  have c2: "replaceLoop orig tmp 0 w = (None, w2)
      \<and> trace w2 = trace w @ [Rename tmp orig, Sleep, Rename tmp orig]
      \<and> files w2 orig = files w tmp"
    if a: "osRename tmp orig w = (Some e1, w1)" and b: "osRename tmp orig (sleep w1) = (None, w2)"
    using a b osRename_fail [OF a] osRename_ok [OF b]
    by (simp add: replaceLoop_0 replaceLoop_1)
  have c3: "replaceLoop orig tmp 0 w = (None, snd (osRemove tmp w3))
      \<and> trace (snd (osRemove tmp w3)) =
          trace w @ [Rename tmp orig, Sleep, Rename tmp orig,
                     OpenRead tmp, Create orig, WriteTo orig, Remove tmp]
      \<and> (tmp \<noteq> orig \<longrightarrow> files (snd (osRemove tmp w3)) orig = files w tmp)"
    if a: "osRename tmp orig w = (Some e1, w1)"
      and b: "osRename tmp orig (sleep w1) = (Some e2, w2)"
      and c: "copyFile tmp orig w2 = (None, w3)"
    using a b c osRename_fail [OF a] osRename_fail [OF b] copyFile_ok_trace [OF c]
      copyFile_ok [OF c]
    by (simp add: replaceLoop_0 replaceLoop_1 osRemove_effect)
  have c4: "replaceLoop orig tmp 0 w = (Some (ReplaceFailed e3), w3)
      \<and> (\<exists>cs. trace w3 = trace w @ [Rename tmp orig, Sleep, Rename tmp orig] @ cs
               \<and> set cs \<subseteq> {OpenRead tmp, Create orig, WriteTo orig})
      \<and> (tmp \<noteq> orig \<longrightarrow> files w3 tmp = files w tmp)"
    if a: "osRename tmp orig w = (Some e1, w1)"
      and b: "osRename tmp orig (sleep w1) = (Some e2, w2)"
      and c: "copyFile tmp orig w2 = (Some e3, w3)"
  proof -
    have r: "replaceLoop orig tmp 0 w = (Some (ReplaceFailed e3), w3)"
      using a b c by (simp add: replaceLoop_0 replaceLoop_1)
    obtain cs where "trace w3 = trace w2 @ cs"
        and "set cs \<subseteq> {OpenRead tmp, Create orig, WriteTo orig}"
      using copyFile_trace [OF c] by blast
    then have t: "\<exists>cs. trace w3 = trace w @ [Rename tmp orig, Sleep, Rename tmp orig] @ cs
               \<and> set cs \<subseteq> {OpenRead tmp, Create orig, WriteTo orig}"
      using osRename_fail [OF a] osRename_fail [OF b] by simp
    have f: "files w3 tmp = files w tmp" if "tmp \<noteq> orig"
      using copyFile_other [OF c that] osRename_fail [OF a] osRename_fail [OF b] by simp
    from r t f show ?thesis by blast
  qed
  have c5: "replaceOriginal fl orig tmp w = replaceLoop orig tmp 0 w" if "\<not> backup fl"
    using that by (simp add: replaceOriginal_def)
  have c6: "replaceOriginal fl orig tmp w = replaceLoop orig tmp 0 wc"
    if "backup fl" "backupPath orig w = (bak, wb)" "copyFile orig bak wb = (None, wc)"
    using that by (simp add: replaceOriginal_def)
  from c1 c2 c3 c4 c5 c6 show ?thesis by blast
qed


theorem C5_replace_step_witness:
  "fst (replaceOriginal (flagsDefault\<lparr>backup := False\<rparr>) ''a.docx'' ''a.docx.tmp''
        (exWorld [(''a.docx'', Raw [5]), (''a.docx.tmp'', Raw [2])] [])) = None
   \<and> files (snd (replaceOriginal (flagsDefault\<lparr>backup := False\<rparr>) ''a.docx'' ''a.docx.tmp''
        (exWorld [(''a.docx'', Raw [5]), (''a.docx.tmp'', Raw [2])] []))) ''a.docx''
       = Some (Raw [2])
   \<and> fst (replaceOriginal (flagsDefault\<lparr>backup := False\<rparr>) ''a.docx'' ''a.docx.tmp''
        (exWorld [(''a.docx'', Raw [5]), (''a.docx.tmp'', Raw [2])] [Some (Raw []), None]))
       = None
   \<and> trace (snd (replaceOriginal (flagsDefault\<lparr>backup := False\<rparr>) ''a.docx'' ''a.docx.tmp''
        (exWorld [(''a.docx'', Raw [5]), (''a.docx.tmp'', Raw [2])] [Some (Raw []), None])))
       = [Rename ''a.docx.tmp'' ''a.docx'', Sleep, Rename ''a.docx.tmp'' ''a.docx'']
   \<and> fst (replaceOriginal (flagsDefault\<lparr>backup := False\<rparr>) ''a.docx'' ''a.docx.tmp''
        (exWorld [(''a.docx'', Raw [5]), (''a.docx.tmp'', Raw [2])]
           [Some (Raw []), Some (Raw []), None, None, None, None])) = None
   \<and> files (snd (replaceOriginal (flagsDefault\<lparr>backup := False\<rparr>) ''a.docx'' ''a.docx.tmp''
        (exWorld [(''a.docx'', Raw [5]), (''a.docx.tmp'', Raw [2])]
           [Some (Raw []), Some (Raw []), None, None, None, None]))) ''a.docx''
       = Some (Raw [2])
   \<and> fst (replaceOriginal (flagsDefault\<lparr>backup := False\<rparr>) ''a.docx'' ''a.docx.tmp''
        (exWorld [(''a.docx'', Raw [5]), (''a.docx.tmp'', Raw [2])]
           [Some (Raw []), Some (Raw []), None, None, Some (Raw [7])]))
       = Some (ReplaceFailed IOFault)
   \<and> files (snd (replaceOriginal (flagsDefault\<lparr>backup := False\<rparr>) ''a.docx'' ''a.docx.tmp''
        (exWorld [(''a.docx'', Raw [5]), (''a.docx.tmp'', Raw [2])]
           [Some (Raw []), Some (Raw []), None, None, Some (Raw [7])]))) ''a.docx.tmp''
       = Some (Raw [2])
   \<and> fst (replaceOriginal flagsDefault ''a.docx'' ''a.docx.tmp''
        (exWorld [(''a.docx'', Raw [5]), (''a.docx.tmp'', Raw [2])] [])) = None"
proof -
  let ?fl = "flagsDefault\<lparr>backup := False\<rparr>"
  let ?o = "''a.docx''" and ?t = "''a.docx.tmp''"
  let ?kvs = "[(''a.docx'', Raw [5]), (''a.docx.tmp'', Raw [2])]"
  have nb: "\<not> backup ?fl" by (simp add: flagsDefault_def)
  have ft: "files (exWorld ?kvs fs) ?t = Some (Raw [2])" for fs
    by (simp add: exWorld_def)
  have tr: "trace (exWorld ?kvs fs) = []" for fs
    by (simp add: exWorld_def)
  \<comment> \<open>the first rename succeeds\<close>
  define wa where "wa = exWorld ?kvs []"
  define wa1 where "wa1 = snd (osRename ?t ?o wa)"
  have a1: "osRename ?t ?o wa = (None, wa1)"
    by (simp add: wa1_def wa_def prod_eq_iff run_eval)
  from C5_replace_step [of ?t ?o wa wa1 IOFault wa1 IOFault wa1 IOFault ?fl "[]" wa wa] a1 nb
  have A: "fst (replaceOriginal ?fl ?o ?t wa) = None
           \<and> files (snd (replaceOriginal ?fl ?o ?t wa)) ?o = Some (Raw [2])"
    by (simp add: wa_def ft)
  \<comment> \<open>the first rename fails, the retry succeeds\<close>
  define wb where "wb = exWorld ?kvs [Some (Raw []), None]"
  define wb1 where "wb1 = snd (osRename ?t ?o wb)"
  define wb2 where "wb2 = snd (osRename ?t ?o (sleep wb1))"
  have b1: "osRename ?t ?o wb = (Some IOFault, wb1)"
    by (simp add: wb1_def wb_def prod_eq_iff run_eval)
  have b2: "osRename ?t ?o (sleep wb1) = (None, wb2)"
    by (simp add: wb2_def wb1_def wb_def prod_eq_iff run_eval)
  from C5_replace_step [of ?t ?o wb wb1 IOFault wb2 IOFault wb2 IOFault ?fl "[]" wb wb] b1 b2 nb
  have B: "fst (replaceOriginal ?fl ?o ?t wb) = None
           \<and> trace (snd (replaceOriginal ?fl ?o ?t wb)) = [Rename ?t ?o, Sleep, Rename ?t ?o]"
    by (simp add: wb_def tr)
  \<comment> \<open>both renames fail, the copy succeeds\<close>
  define wc where "wc = exWorld ?kvs [Some (Raw []), Some (Raw []), None, None, None, None]"
  define wc1 where "wc1 = snd (osRename ?t ?o wc)"
  define wc2 where "wc2 = snd (osRename ?t ?o (sleep wc1))"
  define wc3 where "wc3 = snd (copyFile ?t ?o wc2)"
  have c1: "osRename ?t ?o wc = (Some IOFault, wc1)"
    by (simp add: wc1_def wc_def prod_eq_iff run_eval)
  have c2: "osRename ?t ?o (sleep wc1) = (Some IOFault, wc2)"
    by (simp add: wc2_def wc1_def wc_def prod_eq_iff run_eval)
  have c3: "copyFile ?t ?o wc2 = (None, wc3)"
    by (simp add: wc3_def wc2_def wc1_def wc_def prod_eq_iff run_eval)
  from C5_replace_step [of ?t ?o wc wc1 IOFault wc2 IOFault wc3 IOFault ?fl "[]" wc wc]
    c1 c2 c3 nb
  have C: "fst (replaceOriginal ?fl ?o ?t wc) = None
           \<and> files (snd (replaceOriginal ?fl ?o ?t wc)) ?o = Some (Raw [2])"
    by (simp add: wc_def ft)
  \<comment> \<open>both renames and the copy fail\<close>
  define wd where "wd = exWorld ?kvs [Some (Raw []), Some (Raw []), None, None, Some (Raw [7])]"
  define wd1 where "wd1 = snd (osRename ?t ?o wd)"
  define wd2 where "wd2 = snd (osRename ?t ?o (sleep wd1))"
  define wd3 where "wd3 = snd (copyFile ?t ?o wd2)"
  have d1: "osRename ?t ?o wd = (Some IOFault, wd1)"
    by (simp add: wd1_def wd_def prod_eq_iff run_eval)
  have d2: "osRename ?t ?o (sleep wd1) = (Some IOFault, wd2)"
    by (simp add: wd2_def wd1_def wd_def prod_eq_iff run_eval)
  have d3: "copyFile ?t ?o wd2 = (Some IOFault, wd3)"
    by (simp add: wd3_def wd2_def wd1_def wd_def prod_eq_iff run_eval)
  from C5_replace_step [of ?t ?o wd wd1 IOFault wd2 IOFault wd3 IOFault ?fl "[]" wd wd]
    d1 d2 d3 nb
  have D: "fst (replaceOriginal ?fl ?o ?t wd) = Some (ReplaceFailed IOFault)
           \<and> files (snd (replaceOriginal ?fl ?o ?t wd)) ?t = Some (Raw [2])"
    by (simp add: wd_def ft)
  \<comment> \<open>with the backup made first\<close>
  define we where "we = exWorld ?kvs []"
  define we1 where "we1 = snd (backupPath ?o we)"
  define we2 where "we2 = snd (copyFile ?o ''a.docx.bak'' we1)"
  define we3 where "we3 = snd (osRename ?t ?o we2)"
  have e0: "backup flagsDefault" by (simp add: flagsDefault_def)
  have e1: "backupPath ?o we = (''a.docx.bak'', we1)"
    by (simp add: we1_def we_def prod_eq_iff run_eval)
  have e2: "copyFile ?o ''a.docx.bak'' we1 = (None, we2)"
    by (simp add: we2_def we1_def we_def prod_eq_iff run_eval)
  have e3: "osRename ?t ?o we2 = (None, we3)"
    by (simp add: we3_def we2_def we1_def we_def prod_eq_iff run_eval)
  from C5_replace_step [of ?t ?o we we1 IOFault we1 IOFault we1 IOFault flagsDefault
      "''a.docx.bak''" we1 we2] e0 e1 e2
  have "replaceOriginal flagsDefault ?o ?t we = replaceLoop ?o ?t 0 we2"
    by blast
  moreover from C5_replace_step [of ?t ?o we2 we3 IOFault we3 IOFault we3 IOFault flagsDefault
      "[]" we2 we2] e3
  have "replaceLoop ?o ?t 0 we2 = (None, we3)"
    by blast
  ultimately have E: "fst (replaceOriginal flagsDefault ?o ?t we) = None"
    by simp
  from A B C D E show ?thesis
    unfolding wa_def wb_def wc_def wd_def we_def by blast
qed

subsection \<open>Rewriting an archive\<close>









lemma path_not_tmp: "path \<noteq> path @ ''.tmp''"
  by simp

lemma osCreate_effect:
  "osCreate p w = (None, w1) \<Longrightarrow> files w1 = (files w)(p \<mapsto> Raw [])"
  "osCreate p w = (r, w1) \<Longrightarrow> q \<noteq> p \<Longrightarrow> files w1 q = files w q"
  by (auto simp: prims split: option.splits)
















subsection \<open>Re-encoding an image\<close>

lemma replaceOriginal_errors:
  "replaceOriginal fl orig tmp w = (Some e, w') \<Longrightarrow>
     (\<exists>x. e = BackupFailed x) \<or> (\<exists>x. e = ReplaceFailed x)"
  by (auto simp: replaceOriginal_def replaceLoop_0 replaceLoop_1
        split: if_splits prod.splits option.splits)

lemma osOpen_effect:
  "osOpen p w = (r, w1) \<Longrightarrow> files w1 = files w \<and> trace w1 = trace w @ [OpenRead p]"
  "osOpen p w = (None, w1) \<Longrightarrow> files w p \<noteq> None"
  by (auto simp: prims split: option.splits)

lemma osCreate_trace:
  "osCreate p w = (r, w1) \<Longrightarrow> trace w1 = trace w @ [Create p]"
  by (auto simp: prims split: option.splits)

lemma encodeTo_effect:
  "encodeTo tmp f px w = (r, w1) \<Longrightarrow> trace w1 = trace w @ [WriteTo tmp]"
  "encodeTo tmp f px w = (r, w1) \<Longrightarrow> q \<noteq> tmp \<Longrightarrow> files w1 q = files w q"
  "fault w = Some junk \<Longrightarrow> fst (encodeTo tmp f px w) = Some IOFault
     \<and> files (snd (encodeTo tmp f px w)) tmp = Some junk"
  by (auto simp: encodeTo_def prims split: option.splits)

lemma scrubImage_early_failure:
  assumes s: "scrubImage fl path ext w = (Some e, w')"
      and nb: "\<forall>x. e \<noteq> BackupFailed x" and nr: "\<forall>x. e \<noteq> ReplaceFailed x"
  shows "files w' path = files w path
         \<and> (\<exists>cs. trace w' = trace w @ cs
                \<and> set cs \<subseteq> {OpenRead path, Create (path @ ''.tmp''), WriteTo (path @ ''.tmp'')})"
proof -
  let ?tmp = "path @ ''.tmp''"
  obtain e1 w1 where o: "osOpen path w = (e1, w1)" by force
  note f1 = osOpen_effect(1) [OF o]
  show ?thesis
  proof (cases e1)
    case (Some x)
    with s o f1 show ?thesis by (simp add: scrubImage_def)
  next
    case None
    show ?thesis
    proof (cases "Option.bind (files w1 path) imageDecode")
      case None
      with s o \<open>e1 = None\<close> f1 show ?thesis by (simp add: scrubImage_def)
    next
      case (Some d)
      obtain img format where d: "d = (img, format)" by force
      obtain e2 w2 where c: "osCreate ?tmp w1 = (e2, w2)" by force
      note f2 = osCreate_effect(2) [OF c path_not_tmp] osCreate_trace [OF c]
      show ?thesis
      proof (cases e2)
        case (Some x)
        with s o \<open>e1 = None\<close> \<open>Option.bind (files w1 path) imageDecode = Some d\<close> d c f1 f2
        show ?thesis by (simp add: scrubImage_def)
      next
        case None
        have enc: "files w' path = files w path
             \<and> (\<exists>cs. trace w' = trace w @ cs
                \<and> set cs \<subseteq> {OpenRead path, Create ?tmp, WriteTo ?tmp})"
          if r: "(case encodeTo ?tmp f img w2 of
                    (Some e, w3) \<Rightarrow> (Some (Os e), w3)
                  | (None, w3) \<Rightarrow> replaceOriginal fl path ?tmp w3) = (Some e, w')" for f
        proof -
          obtain e3 w3 where en: "encodeTo ?tmp f img w2 = (e3, w3)" by force
          note f3 = encodeTo_effect(2) [OF en path_not_tmp] encodeTo_effect(1) [OF en]
          show ?thesis
          proof (cases e3)
            case (Some x)
            with r en f1 f2 f3 show ?thesis by simp
          next
            case None
            with r en have "replaceOriginal fl path ?tmp w3 = (Some e, w')" by simp
            from replaceOriginal_errors [OF this] nb nr show ?thesis by blast
          qed
        qed
        from s o \<open>e1 = None\<close> \<open>Option.bind (files w1 path) imageDecode = Some d\<close> d c None
          f1 f2 enc [of JPEG] enc [of PNG]
        show ?thesis
          by (simp add: scrubImage_def split: if_splits)
      qed
    qed
  qed
qed


text \<open>
  C10. When \<open>scrubImage\<close> fails before the commit step (the file cannot be opened, it
  does not decode, the staging file cannot be created, or the encoder fails) it returns
  an error, the file at the original path holds what it held, and the only calls made
  are the open of the original and the creation and writing of the staging file. When
  it is the encoder that fails, what it had written stays at \<open>path + ".tmp"\<close>: no call
  removes it.
\<close>

theorem C10_scrubImage_failure:
  "(scrubImage fl path ext w = (Some e, w')
      \<and> (\<forall>x. e \<noteq> BackupFailed x) \<and> (\<forall>x. e \<noteq> ReplaceFailed x) \<longrightarrow>
      files w' path = files w path
      \<and> (\<exists>cs. trace w' = trace w @ cs
             \<and> set cs \<subseteq> {OpenRead path, Create (path @ ''.tmp''), WriteTo (path @ ''.tmp'')}))
   \<and> (osOpen path w = (Some x, w1) \<longrightarrow> scrubImage fl path ext w = (Some (Os x), w1))
   \<and> (osOpen path w = (None, w1) \<and> files w path = Some c \<and> imageDecode c = None \<longrightarrow>
      scrubImage fl path ext w = (Some DecodeFailed, w1))
   \<and> (osOpen path w = (None, w1) \<and> files w path = Some (Picture f px m)
        \<and> osCreate (path @ ''.tmp'') w1 = (Some x, w2) \<longrightarrow>
      scrubImage fl path ext w = (Some (Os x), w2))
   \<and> (osOpen path w = (None, w1) \<and> files w path = Some (Picture f px m)
        \<and> osCreate (path @ ''.tmp'') w1 = (None, w2) \<and> ext \<in> imageSet
        \<and> fault w2 = Some junk \<longrightarrow>
      fst (scrubImage fl path ext w) = Some (Os IOFault)
      \<and> files (snd (scrubImage fl path ext w)) (path @ ''.tmp'') = Some junk
      \<and> files (snd (scrubImage fl path ext w)) path = Some (Picture f px m)
      \<and> trace (snd (scrubImage fl path ext w)) =
          trace w @ [OpenRead path, Create (path @ ''.tmp''), WriteTo (path @ ''.tmp'')])"
proof -
  let ?tmp = "path @ ''.tmp''"
  have a: "files w' path = files w path
      \<and> (\<exists>cs. trace w' = trace w @ cs
             \<and> set cs \<subseteq> {OpenRead path, Create ?tmp, WriteTo ?tmp})"
    if "scrubImage fl path ext w = (Some e, w')"
      "\<forall>x. e \<noteq> BackupFailed x" "\<forall>x. e \<noteq> ReplaceFailed x"
    using scrubImage_early_failure [OF that] .
  have b: "scrubImage fl path ext w = (Some (Os x), w1)" if "osOpen path w = (Some x, w1)"
    using that by (simp add: scrubImage_def)
  have c: "scrubImage fl path ext w = (Some DecodeFailed, w1)"
    if o: "osOpen path w = (None, w1)" and "files w path = Some c" "imageDecode c = None"
    using that osOpen_effect(1) [OF o] by (simp add: scrubImage_def)
  have d: "scrubImage fl path ext w = (Some (Os x), w2)"
    if o: "osOpen path w = (None, w1)" and "files w path = Some (Picture f px m)"
      "osCreate ?tmp w1 = (Some x, w2)"
    using that osOpen_effect(1) [OF o] by (simp add: scrubImage_def imageDecode_def)
  have e: "fst (scrubImage fl path ext w) = Some (Os IOFault)
      \<and> files (snd (scrubImage fl path ext w)) ?tmp = Some junk
      \<and> files (snd (scrubImage fl path ext w)) path = Some (Picture f px m)
      \<and> trace (snd (scrubImage fl path ext w)) =
          trace w @ [OpenRead path, Create ?tmp, WriteTo ?tmp]"
    if o: "osOpen path w = (None, w1)" and p: "files w path = Some (Picture f px m)"
      and cr: "osCreate ?tmp w1 = (None, w2)" and x: "ext \<in> imageSet"
      and j: "fault w2 = Some junk"
  proof -
    define g where "g = (if ext = ''.png'' then PNG else JPEG)"
    define w3 where "w3 = snd (encodeTo ?tmp g px w2)"
    have enc: "encodeTo ?tmp g px w2 = (Some IOFault, w3)"
      using encodeTo_effect(3) [OF j, of ?tmp g px] by (simp add: prod_eq_iff w3_def)
    have r: "scrubImage fl path ext w = (Some (Os IOFault), w3)"
      using o p cr x osOpen_effect(1) [OF o] enc
      by (auto simp: scrubImage_def imageDecode_def imageSet_def g_def)
    have f2: "files w2 path = files w path" "trace w2 = trace w @ [OpenRead path, Create ?tmp]"
      using osCreate_effect(2) [OF cr path_not_tmp] osCreate_trace [OF cr]
        osOpen_effect(1) [OF o] by simp_all
    have f3: "files w3 ?tmp = Some junk"
      using encodeTo_effect(3) [OF j, of ?tmp g px] by (simp add: w3_def)
    from r f2 f3 p encodeTo_effect(1) [OF enc] encodeTo_effect(2) [OF enc path_not_tmp]
    show ?thesis by simp
  qed
  from a b c d e show ?thesis by blast
qed


theorem C10_scrubImage_failure_witness:
  "fst (scrubImage flagsDefault ''p.jpg'' ''.jpg''
          (exWorld [(''p.jpg'', Picture JPEG [5, 6] [7])] [Some (Raw [])])) = Some (Os IOFault)
   \<and> files (snd (scrubImage flagsDefault ''p.jpg'' ''.jpg''
          (exWorld [(''p.jpg'', Picture JPEG [5, 6] [7])] [Some (Raw [])]))) ''p.jpg''
       = Some (Picture JPEG [5, 6] [7])
   \<and> fst (scrubImage flagsDefault ''p.png'' ''.png'' (exWorld [(''p.png'', Raw [5])] []))
       = Some DecodeFailed
   \<and> files (snd (scrubImage flagsDefault ''p.png'' ''.png'' (exWorld [(''p.png'', Raw [5])] [])))
        ''p.png'' = Some (Raw [5])
   \<and> fst (scrubImage flagsDefault ''p.jpg'' ''.jpg''
          (exWorld [(''p.jpg'', Picture JPEG [5, 6] [7])] [None, Some (Raw [])]))
       = Some (Os IOFault)
   \<and> files (snd (scrubImage flagsDefault ''p.jpg'' ''.jpg''
          (exWorld [(''p.jpg'', Picture JPEG [5, 6] [7])] [None, Some (Raw [])]))) ''p.jpg''
       = Some (Picture JPEG [5, 6] [7])
   \<and> fst (scrubImage flagsDefault ''p.jpg'' ''.jpg''
          (exWorld [(''p.jpg'', Picture JPEG [5, 6] [7])] [None, None, Some (Raw [5])]))
       = Some (Os IOFault)
   \<and> files (snd (scrubImage flagsDefault ''p.jpg'' ''.jpg''
          (exWorld [(''p.jpg'', Picture JPEG [5, 6] [7])] [None, None, Some (Raw [5])])))
        ''p.jpg'' = Some (Picture JPEG [5, 6] [7])
   \<and> files (snd (scrubImage flagsDefault ''p.jpg'' ''.jpg''
          (exWorld [(''p.jpg'', Picture JPEG [5, 6] [7])] [None, None, Some (Raw [5])])))
        ''p.jpg.tmp'' = Some (Raw [5])"
proof -
  let ?pic = "Picture JPEG [5, 6] [7]"
  have fp: "files (exWorld [(''p.jpg'', ?pic)] fs) ''p.jpg'' = Some ?pic" for fs
    by (simp add: exWorld_def)
  \<comment> \<open>the file cannot be opened\<close>
  define wa where "wa = exWorld [(''p.jpg'', ?pic)] [Some (Raw [])]"
  define wa1 where "wa1 = snd (osOpen ''p.jpg'' wa)"
  have a1: "osOpen ''p.jpg'' wa = (Some IOFault, wa1)"
    by (simp add: wa1_def wa_def prod_eq_iff run_eval)
  from C10_scrubImage_failure
    [of flagsDefault "''p.jpg''" "''.jpg''" wa "Os IOFault" wa1 IOFault wa1 ?pic JPEG "[]" "[]" wa1 ?pic]
    a1
  have A: "fst (scrubImage flagsDefault ''p.jpg'' ''.jpg'' wa) = Some (Os IOFault)
           \<and> files (snd (scrubImage flagsDefault ''p.jpg'' ''.jpg'' wa)) ''p.jpg'' = Some ?pic"
    by (simp add: wa_def fp)
  \<comment> \<open>the file does not decode\<close>
  define wb where "wb = exWorld [(''p.png'', Raw [5])] []"
  define wb1 where "wb1 = snd (osOpen ''p.png'' wb)"
  have b1: "osOpen ''p.png'' wb = (None, wb1)"
    by (simp add: wb1_def wb_def prod_eq_iff run_eval)
  have b2: "files wb ''p.png'' = Some (Raw [5])" "imageDecode (Raw [5]) = None"
    by (simp_all add: wb_def exWorld_def imageDecode_def)
  from C10_scrubImage_failure
    [of flagsDefault "''p.png''" "''.png''" wb DecodeFailed wb1 IOFault wb1 "Raw [5]" JPEG "[]" "[]"
        wb1 ?pic]
    b1 b2
  have B: "fst (scrubImage flagsDefault ''p.png'' ''.png'' wb) = Some DecodeFailed
           \<and> files (snd (scrubImage flagsDefault ''p.png'' ''.png'' wb)) ''p.png'' = Some (Raw [5])"
    by simp
  \<comment> \<open>the staging file cannot be created\<close>
  define wc where "wc = exWorld [(''p.jpg'', ?pic)] [None, Some (Raw [])]"
  define wc1 where "wc1 = snd (osOpen ''p.jpg'' wc)"
  define wc2 where "wc2 = snd (osCreate ''p.jpg.tmp'' wc1)"
  have c1: "osOpen ''p.jpg'' wc = (None, wc1)"
    by (simp add: wc1_def wc_def prod_eq_iff run_eval)
  have c2: "osCreate (''p.jpg'' @ ''.tmp'') wc1 = (Some IOFault, wc2)"
    by (simp add: wc2_def wc1_def wc_def prod_eq_iff run_eval)
  from C10_scrubImage_failure
    [of flagsDefault "''p.jpg''" "''.jpg''" wc "Os IOFault" wc2 IOFault wc1 ?pic JPEG "[5, 6]" "[7]"
        wc2 ?pic]
    c1 c2
  have C: "fst (scrubImage flagsDefault ''p.jpg'' ''.jpg'' wc) = Some (Os IOFault)
           \<and> files (snd (scrubImage flagsDefault ''p.jpg'' ''.jpg'' wc)) ''p.jpg'' = Some ?pic"
    by (simp add: wc_def fp)
  \<comment> \<open>the encoder fails\<close>
  define wd where "wd = exWorld [(''p.jpg'', ?pic)] [None, None, Some (Raw [5])]"
  define wd1 where "wd1 = snd (osOpen ''p.jpg'' wd)"
  define wd2 where "wd2 = snd (osCreate ''p.jpg.tmp'' wd1)"
  have d1: "osOpen ''p.jpg'' wd = (None, wd1)"
    by (simp add: wd1_def wd_def prod_eq_iff run_eval)
  have d2: "osCreate (''p.jpg'' @ ''.tmp'') wd1 = (None, wd2)"
    by (simp add: wd2_def wd1_def wd_def prod_eq_iff run_eval)
  have d3: "fault wd2 = Some (Raw [5])" "''.jpg'' \<in> imageSet"
    by (simp_all add: wd2_def wd1_def wd_def run_eval imageSet_def)
  from C10_scrubImage_failure
    [of flagsDefault "''p.jpg''" "''.jpg''" wd "Os IOFault" wd2 IOFault wd1 ?pic JPEG "[5, 6]" "[7]"
        wd2 "Raw [5]"]
    d1 d2 d3
  have D: "fst (scrubImage flagsDefault ''p.jpg'' ''.jpg'' wd) = Some (Os IOFault)
           \<and> files (snd (scrubImage flagsDefault ''p.jpg'' ''.jpg'' wd)) ''p.jpg'' = Some ?pic
           \<and> files (snd (scrubImage flagsDefault ''p.jpg'' ''.jpg'' wd)) ''p.jpg.tmp''
               = Some (Raw [5])"
    by (simp add: wd_def fp)
  from A B C D show ?thesis
    unfolding wa_def wb_def wc_def wd_def by blast
qed

end
